theory Spec2Isabelle
  imports Main
begin

section \<open>The header \<open>tests_e2e/recipes/lib1/lib1.h\<close>\<close>

text \<open>
  The program is a C header of 26 lines: an include guard (\<^verbatim>\<open>#pragma once\<close>), a
  linkage guard for C++ (\<^verbatim>\<open>extern "C" { ... }\<close> under \<^verbatim>\<open>#ifdef __cplusplus\<close>), a nest
  of \<^verbatim>\<open>#ifdef\<close>s that defines the macro \<^verbatim>\<open>API\<close>, and the declaration
  \<^verbatim>\<open>API int func1(int x);\<close>.

  The header is embedded as a function on the state of the translation unit that includes
  it: each directive is a state transformer, each \<^verbatim>\<open>#ifdef\<close> a HOL conditional on the
  macro table, each text line appends its macro-expanded tokens to the output.
\<close>

subsection \<open>Tokens and the state of a translation unit\<close>

datatype token =
    Ident string
  | StrLit string
  | Num string
  | LParen
  | RParen
  | LBrace
  | RBrace
  | Comma
  | Semi

type_synonym macro_table = "(string \<times> token list) list"

text \<open>
  \<open>macros\<close>: the object-like macros defined so far, newest first;
  \<open>once\<close>: the files that have executed \<^verbatim>\<open>#pragma once\<close>;
  \<open>out\<close>: the preprocessed tokens emitted so far.
\<close>

record tu =
  macros :: macro_table
  once :: "string list"
  out :: "token list"

text \<open>
  The only diagnostic a directive of this header could raise: a \<^verbatim>\<open>#define\<close> of a name
  that is already defined with a different replacement list (ISO C 6.10.3p2). The header
  has no \<^verbatim>\<open>#error\<close> and no \<^verbatim>\<open>#include\<close> of its own.
\<close>

datatype pp_error = Redefinition string

definition andthen :: "pp_error + tu \<Rightarrow> (tu \<Rightarrow> pp_error + tu) \<Rightarrow> pp_error + tu" where
  "andthen r f = (case r of Inl e \<Rightarrow> Inl e | Inr s \<Rightarrow> f s)"

subsection \<open>The directives the header uses\<close>

definition pp_ifdef :: "string \<Rightarrow> tu \<Rightarrow> bool" where
  "pp_ifdef n s = (map_of (macros s) n \<noteq> None)"

definition pp_define :: "string \<Rightarrow> token list \<Rightarrow> tu \<Rightarrow> pp_error + tu" where
  "pp_define n r s =
     (case map_of (macros s) n of
        None \<Rightarrow> Inr (s\<lparr>macros := (n, r) # macros s\<rparr>)
      | Some r' \<Rightarrow> if r' = r then Inr s else Inl (Redefinition n))"

text \<open>
  Macro expansion of a text line. An identifier that names a macro is replaced by the
  macro's replacement list, which is rescanned with that name hidden (a macro is not
  expanded inside its own expansion).
\<close>

definition lookup_macro :: "macro_table \<Rightarrow> string list \<Rightarrow> token \<Rightarrow> (string \<times> token list) option" where
  "lookup_macro m hs t =
     (case t of
        Ident n \<Rightarrow> (if n \<in> set hs then None
                    else (case map_of m n of None \<Rightarrow> None | Some r \<Rightarrow> Some (n, r)))
      | _ \<Rightarrow> None)"

lemma lookup_macro_SomeD:
  "lookup_macro m hs t = Some (n, r) \<Longrightarrow> n \<in> fst ` set m \<and> n \<notin> set hs"
  by (auto simp: lookup_macro_def split: token.splits if_splits option.splits
           dest: map_of_SomeD intro: rev_image_eqI)

function expand :: "macro_table \<Rightarrow> string list \<Rightarrow> token list \<Rightarrow> token list" where
  "expand m hs [] = []"
| "expand m hs (t # ts) =
     (case lookup_macro m hs t of
        None \<Rightarrow> t # expand m hs ts
      | Some (n, r) \<Rightarrow> expand m (n # hs) r @ expand m hs ts)"
  by pat_completeness auto
termination
proof (relation "measures [\<lambda>(m, hs, ts). card (fst ` set m - set hs), \<lambda>(m, hs, ts). length ts]")
  show "wf (measures [\<lambda>(m, hs, ts). card (fst ` set m - set hs), \<lambda>(m, hs, ts). length ts])"
    by simp
next
  fix m :: macro_table and hs :: "string list" and t :: token and ts :: "token list"
  show "((m, hs, ts), (m, hs, t # ts))
          \<in> measures [\<lambda>(m, hs, ts). card (fst ` set m - set hs), \<lambda>(m, hs, ts). length ts]"
    by simp
next
  fix m :: macro_table and hs :: "string list" and t :: token and ts :: "token list"
    and x2 :: "string \<times> token list" and n :: string and r :: "token list"
  assume l: "lookup_macro m hs t = Some x2" and x: "(n, r) = x2"
  from l x have "n \<in> fst ` set m" and "n \<notin> set hs"
    using lookup_macro_SomeD [of m hs t n r] by simp_all
  then have "fst ` set m - set (n # hs) \<subset> fst ` set m - set hs"
    by auto
  then have "card (fst ` set m - set (n # hs)) < card (fst ` set m - set hs)"
    by (intro psubset_card_mono) simp_all
  then show "((m, n # hs, r), (m, hs, t # ts))
          \<in> measures [\<lambda>(m, hs, ts). card (fst ` set m - set hs), \<lambda>(m, hs, ts). length ts]"
    by simp
next
  fix m :: macro_table and hs :: "string list" and t :: token and ts :: "token list"
    and x2 :: "string \<times> token list" and n :: string and r :: "token list"
  show "((m, hs, ts), (m, hs, t # ts))
          \<in> measures [\<lambda>(m, hs, ts). card (fst ` set m - set hs), \<lambda>(m, hs, ts). length ts]"
    by simp
qed

definition pp_text :: "token list \<Rightarrow> tu \<Rightarrow> pp_error + tu" where
  "pp_text ts s = Inr (s\<lparr>out := out s @ expand (macros s) [] ts\<rparr>)"

definition pp_pragma_once :: "string \<Rightarrow> tu \<Rightarrow> pp_error + tu" where
  "pp_pragma_once f s = Inr (s\<lparr>once := f # once s\<rparr>)"

text \<open>
  \<^verbatim>\<open>#include\<close> of a file \<open>f\<close> whose content is \<open>body\<close>: skipped when \<open>f\<close> has executed
  \<^verbatim>\<open>#pragma once\<close> earlier in this translation unit. The pragma is an extension, with this
  meaning in GCC, Clang and MSVC, the compilers of the header's targets.
\<close>

definition pp_include :: "string \<Rightarrow> (tu \<Rightarrow> pp_error + tu) \<Rightarrow> tu \<Rightarrow> pp_error + tu" where
  "pp_include f body s = (if f \<in> set (once s) then Inr s else body s)"

subsection \<open>The header, line by line\<close>

text \<open>Lines 3 to 6: \<^verbatim>\<open>#ifdef __cplusplus\<close> / \<^verbatim>\<open>extern "C"\<close> / \<^verbatim>\<open>{\<close> / \<^verbatim>\<open>#endif\<close>.\<close>

definition linkage_open :: "tu \<Rightarrow> pp_error + tu" where
  "linkage_open s =
     (if pp_ifdef ''__cplusplus'' s
      then andthen (pp_text [Ident ''extern'', StrLit ''C''] s) (pp_text [LBrace])
      else Inr s)"

text \<open>Lines 8 to 20: the nest of \<^verbatim>\<open>#ifdef\<close>s that defines \<^verbatim>\<open>API\<close>.\<close>

definition api_block :: "tu \<Rightarrow> pp_error + tu" where
  "api_block s =
     (if pp_ifdef ''_WIN32'' s then
        (if pp_ifdef ''IS_DLL'' s then
           (if pp_ifdef ''PKGA_LIB'' s
            then pp_define ''API'' [Ident ''__declspec'', LParen, Ident ''dllexport'', RParen] s
            else pp_define ''API'' [Ident ''__declspec'', LParen, Ident ''dllimport'', RParen] s)
         else pp_define ''API'' [] s)
      else pp_define ''API'' [] s)"

text \<open>Line 22: \<^verbatim>\<open>API int func1(int x);\<close>.\<close>

definition func1_decl :: "tu \<Rightarrow> pp_error + tu" where
  "func1_decl s =
     pp_text [Ident ''API'', Ident ''int'', Ident ''func1'', LParen,
              Ident ''int'', Ident ''x'', RParen, Semi] s"

text \<open>Lines 24 to 26: \<^verbatim>\<open>#ifdef __cplusplus\<close> / \<^verbatim>\<open>}\<close> / \<^verbatim>\<open>#endif\<close>.\<close>

definition linkage_close :: "tu \<Rightarrow> pp_error + tu" where
  "linkage_close s =
     (if pp_ifdef ''__cplusplus'' s then pp_text [RBrace] s else Inr s)"

text \<open>The whole file, from line 1 (\<^verbatim>\<open>#pragma once\<close>) to line 26.\<close>

definition lib1_h :: "tu \<Rightarrow> pp_error + tu" where
  "lib1_h s =
     andthen (andthen (andthen (andthen (pp_pragma_once ''lib1.h'' s)
       linkage_open) api_block) func1_decl) linkage_close"

definition include_lib1_h :: "tu \<Rightarrow> pp_error + tu" where
  "include_lib1_h s = pp_include ''lib1.h'' lib1_h s"

subsection \<open>The build switches\<close>

text \<open>
  The header reacts to four macros it does not define itself. A translation unit starts
  with the enabled ones predefined (by the compiler or by \<^verbatim>\<open>-D\<close> on its command line),
  nothing included and nothing emitted. \<^verbatim>\<open>#ifdef\<close> asks whether a name is defined, not
  what it is defined as, so the replacement lists chosen here play no part. Other macros
  a compiler predefines are left out: the header tests none of them.
\<close>

record switches =
  win32 :: bool
  is_dll :: bool
  pkga_lib :: bool
  cplusplus :: bool

definition predefined :: "switches \<Rightarrow> macro_table" where
  "predefined sw =
     (if cplusplus sw then [(''__cplusplus'', [Num ''201703L''])] else []) @
     (if win32 sw then [(''_WIN32'', [Num ''1''])] else []) @
     (if is_dll sw then [(''IS_DLL'', [Num ''1''])] else []) @
     (if pkga_lib sw then [(''PKGA_LIB'', [Num ''1''])] else [])"

definition initial :: "switches \<Rightarrow> tu" where
  "initial sw = \<lparr>macros = predefined sw, once = [], out = []\<rparr>"

definition preprocess :: "switches \<Rightarrow> pp_error + tu" where
  "preprocess sw = include_lib1_h (initial sw)"

subsection \<open>What an inclusion leaves behind\<close>

text \<open>The replacement list of \<^verbatim>\<open>API\<close> after preprocessing, and the emitted tokens.\<close>

definition api_macro :: "pp_error + tu \<Rightarrow> token list option" where
  "api_macro r = (case r of Inl e \<Rightarrow> None | Inr s \<Rightarrow> map_of (macros s) ''API'')"

definition emitted :: "pp_error + tu \<Rightarrow> token list option" where
  "emitted r = (case r of Inl e \<Rightarrow> None | Inr s \<Rightarrow> Some (out s))"

text \<open>Braces of the output: every \<^verbatim>\<open>}\<close> closes an open \<^verbatim>\<open>{\<close> and none stays open.\<close>

fun balanced :: "nat \<Rightarrow> token list \<Rightarrow> bool" where
  "balanced d [] = (d = 0)"
| "balanced d (t # ts) =
     (if t = LBrace then balanced (Suc d) ts
      else if t = RBrace then (0 < d \<and> balanced (d - 1) ts)
      else balanced d ts)"

subsection \<open>Reading the declarations of the preprocessed output\<close>

text \<open>
  The output is read back as a compiler would read it: an optional
  \<^verbatim>\<open>extern "C" { ... }\<close> block around a sequence of function prototypes, each an optional
  \<^verbatim>\<open>__declspec(dllexport)\<close> or \<^verbatim>\<open>__declspec(dllimport)\<close>, a return type, a name, a
  parenthesised list of parameters (type and name), and a semicolon.
\<close>

datatype visibility = DllExport | DllImport | Default

record fdecl =
  fd_name :: string
  fd_ret :: string
  fd_params :: "string list"
  fd_vis :: visibility
  fd_extern_c :: bool

fun strip_prefix :: "token list \<Rightarrow> token list \<Rightarrow> token list option" where
  "strip_prefix [] ys = Some ys"
| "strip_prefix (x # xs) [] = None"
| "strip_prefix (x # xs) (y # ys) = (if x = y then strip_prefix xs ys else None)"

definition parse_attr :: "token list \<Rightarrow> visibility \<times> token list" where
  "parse_attr ts =
     (case strip_prefix [Ident ''__declspec'', LParen, Ident ''dllexport'', RParen] ts of
        Some r \<Rightarrow> (DllExport, r)
      | None \<Rightarrow>
          (case strip_prefix [Ident ''__declspec'', LParen, Ident ''dllimport'', RParen] ts of
             Some r \<Rightarrow> (DllImport, r)
           | None \<Rightarrow> (Default, ts)))"

fun parse_params :: "token list \<Rightarrow> string list option" where
  "parse_params (Ident ty # Ident nm # t # ts) =
     (if t = RParen \<and> ts = [] then Some [ty]
      else if t = Comma then
        (case parse_params ts of None \<Rightarrow> None | Some tys \<Rightarrow> Some (ty # tys))
      else None)"
| "parse_params ts = None"

definition parse_fdecl :: "bool \<Rightarrow> token list \<Rightarrow> fdecl option" where
  "parse_fdecl ec ts =
     (case parse_attr ts of
        (v, Ident ret # Ident nm # LParen # ps) \<Rightarrow>
          (case parse_params ps of
             None \<Rightarrow> None
           | Some tys \<Rightarrow>
               Some \<lparr>fd_name = nm, fd_ret = ret, fd_params = tys, fd_vis = v, fd_extern_c = ec\<rparr>)
      | _ \<Rightarrow> None)"

text \<open>The tokens of each declaration, without its closing semicolon.\<close>

fun decl_chunks :: "token list \<Rightarrow> token list list option" where
  "decl_chunks [] = Some []"
| "decl_chunks (t # ts) =
     (if t = Semi then (case decl_chunks ts of None \<Rightarrow> None | Some cs \<Rightarrow> Some ([] # cs))
      else (case decl_chunks ts of Some (c # cs) \<Rightarrow> Some ((t # c) # cs) | _ \<Rightarrow> None))"

definition parse_decls :: "bool \<Rightarrow> token list \<Rightarrow> fdecl list option" where
  "parse_decls ec ts =
     (case decl_chunks ts of None \<Rightarrow> None | Some cs \<Rightarrow> those (map (parse_fdecl ec) cs))"

definition parse_tu :: "token list \<Rightarrow> fdecl list option" where
  "parse_tu ts =
     (case strip_prefix [Ident ''extern'', StrLit ''C'', LBrace] ts of
        Some body \<Rightarrow>
          (if body \<noteq> [] \<and> last body = RBrace then parse_decls True (butlast body) else None)
      | None \<Rightarrow> parse_decls False ts)"

definition declared :: "pp_error + tu \<Rightarrow> fdecl list option" where
  "declared r = (case r of Inl e \<Rightarrow> None | Inr s \<Rightarrow> parse_tu (out s))"

text \<open>
  The name the linker sees. In a C translation unit, and inside \<^verbatim>\<open>extern "C"\<close> in a C++
  one, it is the declared name; otherwise a C++ compiler encodes the parameter types into
  it, and the result is never the plain name.
\<close>

datatype symbol = Unmangled string | Mangled string "string list"

definition symbol_of :: "bool \<Rightarrow> fdecl \<Rightarrow> symbol" where
  "symbol_of cxx d =
     (if cxx \<and> \<not> fd_extern_c d then Mangled (fd_name d) (fd_params d)
      else Unmangled (fd_name d))"

subsection \<open>The implementation the header is linked against\<close>

text \<open>
  Modelled from the spec: the definition of \<^verbatim>\<open>func1\<close> is not part of the header; section 8
  of the specification gives it as \<^verbatim>\<open>int func1(int x) { return x + 1; }\<close>. \<^verbatim>\<open>int\<close> is
  the 32-bit signed integer of the targets; where \<open>x + 1\<close> is not representable the
  behaviour is undefined, which is the value \<open>None\<close>.
\<close>

definition INT_MIN :: int where
  "INT_MIN = - 2147483648"

definition INT_MAX :: int where
  "INT_MAX = 2147483647"

definition func1 :: "int \<Rightarrow> int option" where
  "func1 x = (if INT_MIN \<le> x \<and> x < INT_MAX then Some (x + 1) else None)"

text \<open>
  Modelled from the spec: linking is the work of the toolchain. An object file maps the
  symbols it defines to their code; a call through a declaration resolves the symbol of
  that declaration in the object file.
\<close>

type_synonym object_file = "symbol \<rightharpoonup> (int \<Rightarrow> int option)"

datatype outcome = Returned int | Undefined_behaviour | Unresolved symbol | Ill_typed

definition call_declared :: "bool \<Rightarrow> fdecl \<Rightarrow> object_file \<Rightarrow> int \<Rightarrow> outcome" where
  "call_declared cxx d obj a =
     (if fd_ret d = ''int'' \<and> fd_params d = [''int''] then
        (case obj (symbol_of cxx d) of
           None \<Rightarrow> Unresolved (symbol_of cxx d)
         | Some f \<Rightarrow> (case f a of None \<Rightarrow> Undefined_behaviour | Some v \<Rightarrow> Returned v))
      else Ill_typed)"

subsection \<open>The matrix of the specification\<close>

text \<open>
  Section 6 of the specification, row by row: export for a Windows-like target, shared
  build, defining the library; import for a Windows-like target, shared build, consuming
  it; default everywhere else.
\<close>

definition matrix :: "switches \<Rightarrow> visibility" where
  "matrix sw =
     (if win32 sw \<and> is_dll sw \<and> pkga_lib sw then DllExport
      else if win32 sw \<and> is_dll sw \<and> \<not> pkga_lib sw then DllImport
      else Default)"

fun attr_tokens :: "visibility \<Rightarrow> token list" where
  "attr_tokens DllExport = [Ident ''__declspec'', LParen, Ident ''dllexport'', RParen]"
| "attr_tokens DllImport = [Ident ''__declspec'', LParen, Ident ''dllimport'', RParen]"
| "attr_tokens Default = []"

section \<open>Properties\<close>

subsection \<open>The result of preprocessing, in closed form\<close>

lemmas pp_defs = preprocess_def include_lib1_h_def pp_include_def lib1_h_def linkage_open_def
  linkage_close_def api_block_def func1_decl_def pp_text_def pp_define_def pp_ifdef_def
  pp_pragma_once_def andthen_def initial_def predefined_def lookup_macro_def

lemma preprocess_eq:
  "preprocess sw =
     Inr \<lparr>macros = (''API'', attr_tokens (matrix sw)) # predefined sw,
          once = [''lib1.h''],
          out = (if cplusplus sw then [Ident ''extern'', StrLit ''C'', LBrace] else []) @
                attr_tokens (matrix sw) @
                [Ident ''int'', Ident ''func1'', LParen, Ident ''int'', Ident ''x'', RParen, Semi] @
                (if cplusplus sw then [RBrace] else [])\<rparr>"
  by (cases sw; cases "win32 sw"; cases "is_dll sw"; cases "pkga_lib sw"; cases "cplusplus sw";
      simp add: pp_defs matrix_def)

lemma api_macro_eq: "api_macro (preprocess sw) = Some (attr_tokens (matrix sw))"
  by (simp add: preprocess_eq api_macro_def)

lemma emitted_eq:
  "emitted (preprocess sw) =
     Some ((if cplusplus sw then [Ident ''extern'', StrLit ''C'', LBrace] else []) @
           attr_tokens (matrix sw) @
           [Ident ''int'', Ident ''func1'', LParen, Ident ''int'', Ident ''x'', RParen, Semi] @
           (if cplusplus sw then [RBrace] else []))"
  by (simp add: preprocess_eq emitted_def)

lemmas parse_defs = declared_def parse_tu_def parse_decls_def parse_fdecl_def parse_attr_def

lemma declared_eq:
  "declared (preprocess sw) =
     Some [\<lparr>fd_name = ''func1'', fd_ret = ''int'', fd_params = [''int''],
            fd_vis = matrix sw, fd_extern_c = cplusplus sw\<rparr>]"
  by (cases "matrix sw"; cases "cplusplus sw"; simp add: preprocess_eq parse_defs)

subsection \<open>The include guard, from any state of the translation unit\<close>

lemma andthen_InrD:
  "andthen r f = Inr s' \<Longrightarrow> \<exists>s. r = Inr s \<and> f s = Inr s'"
  by (cases r) (simp_all add: andthen_def)

lemma pp_text_once: "pp_text ts s = Inr s' \<Longrightarrow> once s' = once s"
  by (auto simp: pp_text_def)

lemma pp_define_once: "pp_define n r s = Inr s' \<Longrightarrow> once s' = once s"
  by (auto simp: pp_define_def split: option.splits if_splits)

lemma linkage_open_once: "linkage_open s = Inr s' \<Longrightarrow> once s' = once s"
  by (auto simp: linkage_open_def split: if_splits dest!: andthen_InrD pp_text_once)

lemma api_block_once: "api_block s = Inr s' \<Longrightarrow> once s' = once s"
  by (auto simp: api_block_def split: if_splits dest: pp_define_once)

lemma func1_decl_once: "func1_decl s = Inr s' \<Longrightarrow> once s' = once s"
  by (auto simp: func1_decl_def dest: pp_text_once)

lemma linkage_close_once: "linkage_close s = Inr s' \<Longrightarrow> once s' = once s"
  by (auto simp: linkage_close_def split: if_splits dest: pp_text_once)

lemma lib1_h_once:
  assumes "lib1_h s = Inr s'"
  shows "once s' = ''lib1.h'' # once s"
proof -
  from assms obtain s4 where 4: "andthen (andthen (andthen (pp_pragma_once ''lib1.h'' s)
       linkage_open) api_block) func1_decl = Inr s4" and c: "linkage_close s4 = Inr s'"
    unfolding lib1_h_def by (blast dest: andthen_InrD)
  from 4 obtain s3 where 3: "andthen (andthen (pp_pragma_once ''lib1.h'' s)
       linkage_open) api_block = Inr s3" and f: "func1_decl s3 = Inr s4"
    by (blast dest: andthen_InrD)
  from 3 obtain s2 where 2: "andthen (pp_pragma_once ''lib1.h'' s) linkage_open = Inr s2"
    and a: "api_block s2 = Inr s3"
    by (blast dest: andthen_InrD)
  from 2 obtain s1 where 1: "pp_pragma_once ''lib1.h'' s = Inr s1" and l: "linkage_open s1 = Inr s2"
    by (blast dest: andthen_InrD)
  from 1 have "once s1 = ''lib1.h'' # once s"
    by (auto simp: pp_pragma_once_def)
  with l a f c show ?thesis
    by (simp add: linkage_open_once api_block_once func1_decl_once linkage_close_once)
qed

lemma include_again:
  assumes "include_lib1_h s = Inr s'"
  shows "include_lib1_h s' = Inr s'"
proof (cases "''lib1.h'' \<in> set (once s)")
  case True
  with assms have "s' = s" by (simp add: include_lib1_h_def pp_include_def)
  with True show ?thesis by (simp add: include_lib1_h_def pp_include_def)
next
  case False
  with assms have "lib1_h s = Inr s'" by (simp add: include_lib1_h_def pp_include_def)
  then have "once s' = ''lib1.h'' # once s" by (rule lib1_h_once)
  then show ?thesis by (simp add: include_lib1_h_def pp_include_def)
qed

text \<open>
  Without the guard the body is not idempotent: run a second time, it emits the
  declaration a second time.
\<close>

lemma body_twice_emits_twice:
  "\<exists>s s'. lib1_h (initial sw) = Inr s \<and> lib1_h s = Inr s' \<and> out s' = out s @ out s"
  by (cases sw; cases "win32 sw"; cases "is_dll sw"; cases "pkga_lib sw"; cases "cplusplus sw";
      simp add: pp_defs)

subsection \<open>Visibility\<close>

text \<open>
  C1. On a Windows-like target (\<^verbatim>\<open>_WIN32\<close> defined), preprocessing the header defines
  \<^verbatim>\<open>API\<close> as \<^verbatim>\<open>__declspec(dllexport)\<close> when \<^verbatim>\<open>IS_DLL\<close> and \<^verbatim>\<open>PKGA_LIB\<close> are both
  defined, as \<^verbatim>\<open>__declspec(dllimport)\<close> when \<^verbatim>\<open>IS_DLL\<close> is defined and \<^verbatim>\<open>PKGA_LIB\<close> is
  not, and as empty when \<^verbatim>\<open>IS_DLL\<close> is not defined, whatever \<^verbatim>\<open>PKGA_LIB\<close> is; the
  declaration read from the output carries the same visibility. This holds for C and for
  C++ translation units.
\<close>

theorem api_windows_matrix:
  "api_macro (preprocess \<lparr>win32 = True, is_dll = True, pkga_lib = True, cplusplus = c\<rparr>)
     = Some [Ident ''__declspec'', LParen, Ident ''dllexport'', RParen] \<and>
   map_option (map fd_vis)
     (declared (preprocess \<lparr>win32 = True, is_dll = True, pkga_lib = True, cplusplus = c\<rparr>))
     = Some [DllExport] \<and>
   api_macro (preprocess \<lparr>win32 = True, is_dll = True, pkga_lib = False, cplusplus = c\<rparr>)
     = Some [Ident ''__declspec'', LParen, Ident ''dllimport'', RParen] \<and>
   map_option (map fd_vis)
     (declared (preprocess \<lparr>win32 = True, is_dll = True, pkga_lib = False, cplusplus = c\<rparr>))
     = Some [DllImport] \<and>
   api_macro (preprocess \<lparr>win32 = True, is_dll = False, pkga_lib = p, cplusplus = c\<rparr>)
     = Some [] \<and>
   map_option (map fd_vis)
     (declared (preprocess \<lparr>win32 = True, is_dll = False, pkga_lib = p, cplusplus = c\<rparr>))
     = Some [Default]"
  by (simp add: declared_eq api_macro_eq matrix_def)

text \<open>
  C2. On a target that is not Windows-like (\<^verbatim>\<open>_WIN32\<close> not defined), preprocessing the
  header defines \<^verbatim>\<open>API\<close> as empty for every setting of \<^verbatim>\<open>IS_DLL\<close> and \<^verbatim>\<open>PKGA_LIB\<close>: the
  output is the bare declaration of \<^verbatim>\<open>func1\<close> (inside the linkage block in C++), with no
  visibility attribute before it.
\<close>

theorem api_other_platforms:
  "api_macro (preprocess \<lparr>win32 = False, is_dll = d, pkga_lib = p, cplusplus = c\<rparr>) = Some [] \<and>
   emitted (preprocess \<lparr>win32 = False, is_dll = d, pkga_lib = p, cplusplus = c\<rparr>)
     = Some ((if c then [Ident ''extern'', StrLit ''C'', LBrace] else []) @
             [Ident ''int'', Ident ''func1'', LParen, Ident ''int'', Ident ''x'', RParen, Semi] @
             (if c then [RBrace] else [])) \<and>
   map_option (map fd_vis)
     (declared (preprocess \<lparr>win32 = False, is_dll = d, pkga_lib = p, cplusplus = c\<rparr>))
     = Some [Default]"
  by (simp add: declared_eq api_macro_eq emitted_eq matrix_def)

subsection \<open>Linkage\<close>

text \<open>
  C3. In a C++ translation unit (\<^verbatim>\<open>__cplusplus\<close> defined) the output is
  \<^verbatim>\<open>extern "C" {\<close>, the declaration of \<^verbatim>\<open>func1\<close> with the expansion of \<^verbatim>\<open>API\<close> before it,
  and the closing \<^verbatim>\<open>}\<close>: the braces match, the declaration read from the output lies inside
  the linkage block, and its symbol is the unmangled \<^verbatim>\<open>func1\<close>. This holds for every
  setting of \<^verbatim>\<open>_WIN32\<close>, \<^verbatim>\<open>IS_DLL\<close> and \<^verbatim>\<open>PKGA_LIB\<close>.
\<close>

theorem cplusplus_extern_c:
  "(let r = preprocess \<lparr>win32 = w, is_dll = d, pkga_lib = p, cplusplus = True\<rparr> in
      (\<exists>v ts. api_macro r = Some v \<and> emitted r = Some ts \<and>
           ts = [Ident ''extern'', StrLit ''C'', LBrace] @ v @
             [Ident ''int'', Ident ''func1'', LParen, Ident ''int'', Ident ''x'', RParen, Semi] @
             [RBrace] \<and>
           balanced 0 ts) \<and>
      (\<exists>f. declared r = Some [f] \<and> fd_name f = ''func1'' \<and> fd_extern_c f \<and>
           symbol_of True f = Unmangled ''func1''))"
  by (cases w; cases d; cases p;
      simp add: declared_eq api_macro_eq emitted_eq symbol_of_def matrix_def)

subsection \<open>Multiple inclusion\<close>

text \<open>
  C4. Including the header a second time in the same translation unit changes nothing:
  the state after two inclusions is the state after one, an inclusion raises no
  redefinition error, and that state holds one declaration of \<^verbatim>\<open>func1\<close> and one definition
  of \<^verbatim>\<open>API\<close>. This holds for every combination of the build switches.
\<close>

theorem include_twice:
  "andthen (include_lib1_h (initial sw)) include_lib1_h = include_lib1_h (initial sw) \<and>
   (\<exists>s. include_lib1_h (initial sw) = Inr s \<and>
        length (filter (\<lambda>t. t = Ident ''func1'') (out s)) = 1 \<and>
        length (filter (\<lambda>e. fst e = ''API'') (macros s)) = 1)"
  using preprocess_eq [of sw]
  by (cases sw; cases "win32 sw"; cases "is_dll sw"; cases "pkga_lib sw"; cases "cplusplus sw";
      simp add: preprocess_def andthen_def include_lib1_h_def pp_include_def predefined_def
        matrix_def)

subsection \<open>The declared function\<close>

text \<open>
  C5. For every combination of the switches the output declares exactly one function: its
  name and its symbol for the linker are \<^verbatim>\<open>func1\<close>, it has one parameter, of type \<^verbatim>\<open>int\<close>,
  and it returns \<^verbatim>\<open>int\<close>.
\<close>

theorem declares_func1:
  "\<exists>f. declared (preprocess sw) = Some [f] \<and> fd_name f = ''func1'' \<and> fd_ret f = ''int'' \<and>
       fd_params f = [''int''] \<and> symbol_of (cplusplus sw) f = Unmangled ''func1''"
  by (simp add: declared_eq symbol_of_def)

text \<open>
  C6. A call \<^verbatim>\<open>func1(5)\<close> through the declaration of the header, in a C or a C++
  translation unit and for every combination of the switches, linked against any object
  file whose symbol \<^verbatim>\<open>func1\<close> is \<^verbatim>\<open>int func1(int x) { return x + 1; }\<close>, returns 6.
\<close>

theorem call_func1_5:
  "obj (Unmangled ''func1'') = Some func1 \<Longrightarrow>
   \<exists>f. declared (preprocess sw) = Some [f] \<and> call_declared (cplusplus sw) f obj 5 = Returned 6"
  by (simp add: declared_eq call_declared_def symbol_of_def func1_def INT_MIN_def INT_MAX_def)

theorem call_func1_5_witness:
  "(Map.empty(Unmangled ''func1'' \<mapsto> func1)) (Unmangled ''func1'') = Some func1 \<and>
   (\<exists>f. declared (preprocess \<lparr>win32 = True, is_dll = True, pkga_lib = False, cplusplus = True\<rparr>)
          = Some [f] \<and>
        call_declared True f (Map.empty(Unmangled ''func1'' \<mapsto> func1)) 5 = Returned 6)"
  using call_func1_5 [of "Map.empty(Unmangled ''func1'' \<mapsto> func1)"
      "\<lparr>win32 = True, is_dll = True, pkga_lib = False, cplusplus = True\<rparr>"]
  by simp

subsection \<open>No error\<close>

text \<open>
  C7. Preprocessing the header succeeds for every combination of the four switches
  \<^verbatim>\<open>_WIN32\<close>, \<^verbatim>\<open>IS_DLL\<close>, \<^verbatim>\<open>PKGA_LIB\<close> and \<^verbatim>\<open>__cplusplus\<close>: the result is a state of the
  translation unit, never an error.
\<close>

theorem preprocess_succeeds:
  "\<exists>s. preprocess \<lparr>win32 = w, is_dll = d, pkga_lib = p, cplusplus = c\<rparr> = Inr s"
  by (simp add: preprocess_eq)

subsection \<open>What the header leaves in the macro table\<close>

text \<open>
  C8. For every combination of the switches the nest of conditionals executes exactly one
  \<^verbatim>\<open>#define\<close> of \<^verbatim>\<open>API\<close>: \<^verbatim>\<open>API\<close> is not defined before, the macro table after the inclusion
  is the table before with one entry added, that entry is for \<^verbatim>\<open>API\<close>, and \<^verbatim>\<open>API\<close> is still
  defined when the header ends.
\<close>

theorem api_defined_once:
  "(\<exists>v. api_block (initial sw) =
          Inr ((initial sw)\<lparr>macros := (''API'', v) # macros (initial sw)\<rparr>)) \<and>
   (\<exists>v s. preprocess sw = Inr s \<and> map_of (macros (initial sw)) ''API'' = None \<and>
          macros s = (''API'', v) # macros (initial sw) \<and> pp_ifdef ''API'' s)"
  by (cases sw; cases "win32 sw"; cases "is_dll sw"; cases "pkga_lib sw"; cases "cplusplus sw";
      simp add: preprocess_eq api_block_def pp_define_def pp_ifdef_def initial_def predefined_def)

subsection \<open>Independence of visibility and linkage\<close>

text \<open>
  C9. Two runs that agree on \<^verbatim>\<open>_WIN32\<close>, \<^verbatim>\<open>IS_DLL\<close> and \<^verbatim>\<open>PKGA_LIB\<close> define \<^verbatim>\<open>API\<close> alike and
  give \<^verbatim>\<open>func1\<close> the same visibility, whatever \<^verbatim>\<open>__cplusplus\<close> is in each; two runs that
  agree on \<^verbatim>\<open>__cplusplus\<close> agree on whether \<^verbatim>\<open>func1\<close> lies in an \<^verbatim>\<open>extern "C"\<close> block,
  whatever the other three switches are in each.
\<close>

theorem switch_noninterference:
  "(\<exists>v. api_macro (preprocess \<lparr>win32 = w, is_dll = d, pkga_lib = p, cplusplus = c\<rparr>) = Some v \<and>
        api_macro (preprocess \<lparr>win32 = w, is_dll = d, pkga_lib = p, cplusplus = c'\<rparr>) = Some v) \<and>
   (\<exists>vs. map_option (map fd_vis)
           (declared (preprocess \<lparr>win32 = w, is_dll = d, pkga_lib = p, cplusplus = c\<rparr>))
           = Some vs \<and>
         map_option (map fd_vis)
           (declared (preprocess \<lparr>win32 = w, is_dll = d, pkga_lib = p, cplusplus = c'\<rparr>))
           = Some vs) \<and>
   (\<exists>es. map_option (map fd_extern_c)
           (declared (preprocess \<lparr>win32 = w, is_dll = d, pkga_lib = p, cplusplus = c\<rparr>))
           = Some es \<and>
         map_option (map fd_extern_c)
           (declared (preprocess \<lparr>win32 = w', is_dll = d', pkga_lib = p', cplusplus = c\<rparr>))
           = Some es)"
  by (simp add: declared_eq api_macro_eq matrix_def)

subsection \<open>C translation units\<close>

text \<open>
  C10. In a C translation unit (\<^verbatim>\<open>__cplusplus\<close> not defined) the output is exactly the
  expansion of the selected \<^verbatim>\<open>API\<close> followed by \<^verbatim>\<open>int func1(int x);\<close>: no \<^verbatim>\<open>extern\<close>, no
  \<^verbatim>\<open>"C"\<close> and no brace is emitted. In C and in C++ alike the braces of the output are
  balanced.
\<close>

theorem c_translation_unit:
  "(let r = preprocess \<lparr>win32 = w, is_dll = d, pkga_lib = p, cplusplus = False\<rparr> in
      \<exists>v ts. api_macro r = Some v \<and> emitted r = Some ts \<and>
          ts = v @ [Ident ''int'', Ident ''func1'', LParen, Ident ''int'', Ident ''x'', RParen, Semi] \<and>
          Ident ''extern'' \<notin> set ts \<and> StrLit ''C'' \<notin> set ts \<and>
          LBrace \<notin> set ts \<and> RBrace \<notin> set ts) \<and>
   (\<exists>ts. emitted (preprocess \<lparr>win32 = w, is_dll = d, pkga_lib = p, cplusplus = c\<rparr>) = Some ts \<and>
         balanced 0 ts)"
  by (cases w; cases d; cases p; cases c;
      simp add: api_macro_eq emitted_eq matrix_def)

end
